theory Spec2Isabelle
  imports Complex_Main
begin

section \<open>Data model of \<open>modelscope/app.py\<close>\<close>

text \<open>
  The script glues library calls together. The model keeps every function of the script
  as a HOL function and makes explicit what the Python leaves implicit:
  \<^item> an exception is a value of \<open>exn\<close>, and a function that may raise returns
    \<open>exn + 'a\<close> (\<open>Inl\<close> is the exception);
  \<^item> every call that leaves the script (a library constructor, the loader, the index
    build, the retriever, the language model, \<open>print\<close>) appends one \<open>event\<close>, with the
    arguments of the call, to a trace that is passed through;
  \<^item> what such a call returns is not known to the script: it is read from an
    environment \<open>E\<close>, whose functions see the trace of all earlier calls, so that the
    same call may answer differently at different times. Every theorem holds for every
    environment.
  Python strings are byte strings in UTF-8 here; the script only concatenates and
  substitutes them.
\<close>

type_synonym turn = "string \<times> string"

record doc =
  page_content :: string
  metadata :: "(string \<times> string) list"

record 'c embeddings =
  model_name :: string
  client :: 'c

text \<open>The three attributes of the \<open>ChatGLM\<close> object that the script assigns.\<close>

record 'f ChatGLM =
  history :: "turn list"
  temperature :: 'f
  top_p :: 'f

datatype file_obj = File (name: string)

datatype exn =
    KeyError string
  | AttributeError string
  | ValueError string
  | NotModelled
  | External string string

text \<open>The Python class name of an exception; \<open>External c m\<close> is raised by a collaborator.\<close>

fun exn_class :: "exn \<Rightarrow> string" where
  "exn_class (KeyError k) = ''KeyError''"
| "exn_class (AttributeError a) = ''AttributeError''"
| "exn_class (ValueError m) = ''ValueError''"
| "exn_class NotModelled = ''NotModelled''"
| "exn_class (External c m) = c"

datatype ('c, 'v, 'f) event =
    Print string
  | New_HuggingFaceEmbeddings string
  | New_SentenceTransformer string string
  | Loader_load string
  | FAISS_from_documents "doc list" "'c embeddings"
  | New_ChatGLM
  | Retrieve 'v string int
  | Generate "'f ChatGLM" string

type_synonym ('c, 'v, 'f) trace = "('c, 'v, 'f) event list"

record ('c, 'v, 'f) env =
  ext_HuggingFaceEmbeddings :: "('c, 'v, 'f) trace \<Rightarrow> string \<Rightarrow> exn + 'c embeddings"
  ext_SentenceTransformer :: "('c, 'v, 'f) trace \<Rightarrow> string \<Rightarrow> string \<Rightarrow> exn + 'c"
  ext_load :: "('c, 'v, 'f) trace \<Rightarrow> string \<Rightarrow> exn + doc list"
  ext_from_documents :: "('c, 'v, 'f) trace \<Rightarrow> doc list \<Rightarrow> 'c embeddings \<Rightarrow> exn + 'v"
  ext_ChatGLM :: "('c, 'v, 'f) trace \<Rightarrow> exn + 'f ChatGLM"
  ext_retrieve :: "('c, 'v, 'f) trace \<Rightarrow> 'v \<Rightarrow> string \<Rightarrow> int \<Rightarrow> exn + doc list"
  ext_combine :: "doc list \<Rightarrow> string"
  ext_generate :: "('c, 'v, 'f) trace \<Rightarrow> 'f ChatGLM \<Rightarrow> string \<Rightarrow> exn + string"

section \<open>Constants of the script\<close>

definition DEVICE :: string where
  "DEVICE = ''cpu''"

definition embedding_model_dict :: "string \<rightharpoonup> string" where
  "embedding_model_dict =
     [''ernie-tiny'' \<mapsto> ''nghuyong/ernie-3.0-nano-zh'',
      ''ernie-base'' \<mapsto> ''nghuyong/ernie-3.0-xbase-zh'',
      ''text2vec-base'' \<mapsto> ''shibing624/text2vec-base-chinese'']"

text \<open>
  The prompt template, line by line as in the source (the continuation lines carry the
  eight blanks of their indentation). The Chinese text is given in UTF-8 bytes.
  \<open>policy_line1\<close>: "Based on the known information below, answer the user's question
  concisely and professionally."
  \<open>policy_line2\<close>: "If no answer can be obtained from it, say "the question cannot be
  answered from the known information" or "not enough relevant information was provided";
  adding made-up parts to the answer is not allowed; please answer in Chinese."
  \<open>context_label\<close>: "Known content:". \<open>question_label\<close>: "Question:".
\<close>

definition policy_line1 :: string where
  "policy_line1 =
     [CHR 0xE5, CHR 0x9F, CHR 0xBA, CHR 0xE4, CHR 0xBA, CHR 0x8E, CHR 0xE4, CHR 0xBB, CHR 0xA5, CHR 0xE4,
      CHR 0xB8, CHR 0x8B, CHR 0xE5, CHR 0xB7, CHR 0xB2, CHR 0xE7, CHR 0x9F, CHR 0xA5, CHR 0xE4, CHR 0xBF,
      CHR 0xA1, CHR 0xE6, CHR 0x81, CHR 0xAF, CHR 0xEF, CHR 0xBC, CHR 0x8C, CHR 0xE7, CHR 0xAE, CHR 0x80,
      CHR 0xE6, CHR 0xB4, CHR 0x81, CHR 0xE5, CHR 0x92, CHR 0x8C, CHR 0xE4, CHR 0xB8, CHR 0x93, CHR 0xE4,
      CHR 0xB8, CHR 0x9A, CHR 0xE7, CHR 0x9A, CHR 0x84, CHR 0xE6, CHR 0x9D, CHR 0xA5, CHR 0xE5, CHR 0x9B,
      CHR 0x9E, CHR 0xE7, CHR 0xAD, CHR 0x94, CHR 0xE7, CHR 0x94, CHR 0xA8, CHR 0xE6, CHR 0x88, CHR 0xB7,
      CHR 0xE7, CHR 0x9A, CHR 0x84, CHR 0xE9, CHR 0x97, CHR 0xAE, CHR 0xE9, CHR 0xA2, CHR 0x98, CHR 0xE3,
      CHR 0x80, CHR 0x82]"

definition policy_line2 :: string where
  "policy_line2 =
     ''        ''
     @ [CHR 0xE5, CHR 0xA6, CHR 0x82, CHR 0xE6, CHR 0x9E, CHR 0x9C, CHR 0xE6, CHR 0x97, CHR 0xA0, CHR 0xE6,
      CHR 0xB3, CHR 0x95, CHR 0xE4, CHR 0xBB, CHR 0x8E, CHR 0xE4, CHR 0xB8, CHR 0xAD, CHR 0xE5, CHR 0xBE,
      CHR 0x97, CHR 0xE5, CHR 0x88, CHR 0xB0, CHR 0xE7, CHR 0xAD, CHR 0x94, CHR 0xE6, CHR 0xA1, CHR 0x88,
      CHR 0xEF, CHR 0xBC, CHR 0x8C, CHR 0xE8, CHR 0xAF, CHR 0xB7, CHR 0xE8, CHR 0xAF, CHR 0xB4]
     @ '' ''
     @ [CHR 0x22, CHR 0xE6, CHR 0xA0, CHR 0xB9, CHR 0xE6, CHR 0x8D, CHR 0xAE, CHR 0xE5, CHR 0xB7, CHR 0xB2,
      CHR 0xE7, CHR 0x9F, CHR 0xA5, CHR 0xE4, CHR 0xBF, CHR 0xA1, CHR 0xE6, CHR 0x81, CHR 0xAF, CHR 0xE6,
      CHR 0x97, CHR 0xA0, CHR 0xE6, CHR 0xB3, CHR 0x95, CHR 0xE5, CHR 0x9B, CHR 0x9E, CHR 0xE7, CHR 0xAD,
      CHR 0x94, CHR 0xE8, CHR 0xAF, CHR 0xA5, CHR 0xE9, CHR 0x97, CHR 0xAE, CHR 0xE9, CHR 0xA2, CHR 0x98,
      CHR 0x22]
     @ '' ''
     @ [CHR 0xE6, CHR 0x88, CHR 0x96]
     @ '' ''
     @ [CHR 0x22, CHR 0xE6, CHR 0xB2, CHR 0xA1, CHR 0xE6, CHR 0x9C, CHR 0x89, CHR 0xE6, CHR 0x8F, CHR 0x90,
      CHR 0xE4, CHR 0xBE, CHR 0x9B, CHR 0xE8, CHR 0xB6, CHR 0xB3, CHR 0xE5, CHR 0xA4, CHR 0x9F, CHR 0xE7,
      CHR 0x9A, CHR 0x84, CHR 0xE7, CHR 0x9B, CHR 0xB8, CHR 0xE5, CHR 0x85, CHR 0xB3, CHR 0xE4, CHR 0xBF,
      CHR 0xA1, CHR 0xE6, CHR 0x81, CHR 0xAF, CHR 0x22, CHR 0xEF, CHR 0xBC, CHR 0x8C, CHR 0xE4, CHR 0xB8,
      CHR 0x8D, CHR 0xE5, CHR 0x85, CHR 0x81, CHR 0xE8, CHR 0xAE, CHR 0xB8, CHR 0xE5, CHR 0x9C, CHR 0xA8,
      CHR 0xE7, CHR 0xAD, CHR 0x94, CHR 0xE6, CHR 0xA1, CHR 0x88, CHR 0xE4, CHR 0xB8, CHR 0xAD, CHR 0xE6,
      CHR 0xB7, CHR 0xBB, CHR 0xE5, CHR 0x8A, CHR 0xA0, CHR 0xE7, CHR 0xBC, CHR 0x96, CHR 0xE9, CHR 0x80,
      CHR 0xA0, CHR 0xE6, CHR 0x88, CHR 0x90, CHR 0xE5, CHR 0x88, CHR 0x86, CHR 0xEF, CHR 0xBC, CHR 0x8C,
      CHR 0xE7, CHR 0xAD, CHR 0x94, CHR 0xE6, CHR 0xA1, CHR 0x88, CHR 0xE8, CHR 0xAF, CHR 0xB7, CHR 0xE4,
      CHR 0xBD, CHR 0xBF, CHR 0xE7, CHR 0x94, CHR 0xA8, CHR 0xE4, CHR 0xB8, CHR 0xAD, CHR 0xE6, CHR 0x96,
      CHR 0x87, CHR 0xE3, CHR 0x80, CHR 0x82]"

definition context_label :: string where
  "context_label =
     ''        ''
     @ [CHR 0xE5, CHR 0xB7, CHR 0xB2, CHR 0xE7, CHR 0x9F, CHR 0xA5, CHR 0xE5, CHR 0x86, CHR 0x85, CHR 0xE5,
      CHR 0xAE, CHR 0xB9]
     @ '':''"

definition question_label :: string where
  "question_label =
     ''        ''
     @ [CHR 0xE9, CHR 0x97, CHR 0xAE, CHR 0xE9, CHR 0xA2, CHR 0x98]
     @ '':''"

definition template_head :: string where
  "template_head =
     policy_line1 @ [CHR 0x0A] @ policy_line2 @ [CHR 0x0A, CHR 0x0A] @ context_label @ [CHR 0x0A]
     @ ''        ''"

definition template_mid :: string where
  "template_mid =
     [CHR 0x0A, CHR 0x0A] @ question_label @ [CHR 0x0A]
     @ ''        ''"

definition prompt_template :: string where
  "prompt_template = template_head @ ''{context}'' @ template_mid @ ''{question}''"

section \<open>Python operations used by the script\<close>

text \<open>
  \<open>xs[i:]\<close>: a negative start counts from the end, and a start outside the list is
  clamped to it; a slice never raises.
\<close>

definition slice_from :: "'a list \<Rightarrow> int \<Rightarrow> 'a list" where
  "slice_from xs i =
     (let n = int (length xs);
          j = (if i < 0 then max 0 (n + i) else min i n)
      in drop (nat j) xs)"

text \<open>
  \<open>template.format(**kw)\<close> for templates whose replacement fields are plain names:
  \<open>{{\<close> and \<open>}}\<close> are literal braces, \<open>{name}\<close> is replaced by the value of
  \<open>name\<close>, which is not scanned again. The second argument is the field name being read
  (\<open>None\<close> outside a field). Fields with a conversion, a format specification, an
  attribute, an index or a position are outside this model and yield \<open>NotModelled\<close>.
\<close>

definition field_special :: "char \<Rightarrow> bool" where
  "field_special c = (c \<in> set ''{!:.[]'')"

fun format_go :: "(string \<times> string) list \<Rightarrow> string option \<Rightarrow> string \<Rightarrow> string \<Rightarrow> exn + string" where
  "format_go kw None acc [] = Inr acc"
| "format_go kw (Some f) acc [] = Inl (ValueError ''expected } before end of string'')"
| "format_go kw None acc (c # cs) =
     (if c = CHR ''{'' then
        (case cs of
           [] \<Rightarrow> Inl (ValueError ''Single { encountered in format string'')
         | d # ds \<Rightarrow> if d = CHR ''{'' then format_go kw None (acc @ ''{'') ds
                    else format_go kw (Some []) acc cs)
      else if c = CHR ''}'' then
        (case cs of
           [] \<Rightarrow> Inl (ValueError ''Single } encountered in format string'')
         | d # ds \<Rightarrow> if d = CHR ''}'' then format_go kw None (acc @ ''}'') ds
                    else Inl (ValueError ''Single } encountered in format string''))
      else format_go kw None (acc @ [c]) cs)"
| "format_go kw (Some f) acc (c # cs) =
     (if c = CHR ''}'' then
        (if f = [] \<or> hd f \<in> set ''0123456789'' then Inl NotModelled
         else case map_of kw f of
                None \<Rightarrow> Inl (KeyError f)
              | Some v \<Rightarrow> format_go kw None (acc @ v) cs)
      else if field_special c then Inl NotModelled
      else format_go kw (Some (f @ [c])) acc cs)"

definition format_template :: "string \<Rightarrow> (string \<times> string) list \<Rightarrow> exn + string" where
  "format_template template kw = format_go kw None [] template"

section \<open>The functions of the script\<close>

text \<open>
  \<open>init_knowledge_vector_store\<close>: the dictionary lookup is evaluated first and raises
  \<open>KeyError\<close> for a key that is not in the dictionary; then two constructors, the
  loader and the index build, each of which may raise.
\<close>

definition init_knowledge_vector_store ::
  "('c, 'v, 'f) env \<Rightarrow> ('c, 'v, 'f) trace \<Rightarrow> string \<Rightarrow> string \<Rightarrow> (exn + 'v) \<times> ('c, 'v, 'f) trace" where
  "init_knowledge_vector_store E tr embedding_model filepath =
     (case embedding_model_dict embedding_model of
        None \<Rightarrow> (Inl (KeyError embedding_model), tr)
      | Some mname \<Rightarrow>
          let tr1 = tr @ [New_HuggingFaceEmbeddings mname] in
          (case ext_HuggingFaceEmbeddings E tr mname of
             Inl e \<Rightarrow> (Inl e, tr1)
           | Inr embeddings0 \<Rightarrow>
               let tr2 = tr1 @ [New_SentenceTransformer (model_name embeddings0) DEVICE] in
               (case ext_SentenceTransformer E tr1 (model_name embeddings0) DEVICE of
                  Inl e \<Rightarrow> (Inl e, tr2)
                | Inr cl \<Rightarrow>
                    let embeddings = embeddings0\<lparr>client := cl\<rparr>;
                        tr3 = tr2 @ [Loader_load filepath] in
                    (case ext_load E tr2 filepath of
                       Inl e \<Rightarrow> (Inl e, tr3)
                     | Inr docs \<Rightarrow>
                         let tr4 = tr3 @ [FAISS_from_documents docs embeddings] in
                         (case ext_from_documents E tr3 docs embeddings of
                            Inl e \<Rightarrow> (Inl e, tr4)
                          | Inr vector_store \<Rightarrow> (Inr vector_store, tr4))))))"

text \<open>
  The call \<open>knowledge_chain({"query": query})\<close> of the chain built by
  \<open>RetrievalQA.from_llm\<close>: the retriever is asked for \<open>k\<close> documents, the library
  combines them into the context text, the prompt template is formatted with the two
  variables \<open>context\<close> and \<open>question\<close>, and the language model is called on the prompt.
\<close>

definition knowledge_chain ::
  "('c, 'v, 'f) env \<Rightarrow> ('c, 'v, 'f) trace \<Rightarrow> 'f ChatGLM \<Rightarrow> 'v \<Rightarrow> int \<Rightarrow> string \<Rightarrow> string
     \<Rightarrow> (exn + string) \<times> ('c, 'v, 'f) trace" where
  "knowledge_chain E tr chatLLM vector_store k template query =
     (let tr1 = tr @ [Retrieve vector_store query k] in
      case ext_retrieve E tr vector_store query k of
        Inl e \<Rightarrow> (Inl e, tr1)
      | Inr docs \<Rightarrow>
          (case format_template template [(''context'', ext_combine E docs), (''question'', query)] of
             Inl e \<Rightarrow> (Inl e, tr1)
           | Inr prompt \<Rightarrow>
               let tr2 = tr1 @ [Generate chatLLM prompt] in
               (case ext_generate E tr1 chatLLM prompt of
                  Inl e \<Rightarrow> (Inl e, tr2)
                | Inr result \<Rightarrow> (Inr result, tr2))))"

definition get_knowledge_based_answer ::
  "('c, 'v, 'f) env \<Rightarrow> ('c, 'v, 'f) trace \<Rightarrow> string \<Rightarrow> 'v \<Rightarrow> int \<Rightarrow> turn list \<Rightarrow> int \<Rightarrow> 'f \<Rightarrow> 'f
     \<Rightarrow> (exn + string) \<times> ('c, 'v, 'f) trace" where
  "get_knowledge_based_answer E tr query vector_store VECTOR_SEARCH_TOP_K chat_history history_len temp topp =
     (let tr1 = tr @ [New_ChatGLM] in
      case ext_ChatGLM E tr of
        Inl e \<Rightarrow> (Inl e, tr1)
      | Inr chatLLM0 \<Rightarrow>
          let chatLLM = chatLLM0
                \<lparr>history := (if history_len > 0 then slice_from chat_history (- history_len) else []),
                 temperature := temp,
                 top_p := topp\<rparr>
          in knowledge_chain E tr1 chatLLM vector_store VECTOR_SEARCH_TOP_K prompt_template query)"

datatype chatbot_value = Text string | Turns "turn list"

definition clear_session :: "chatbot_value \<times> turn list option" where
  "clear_session = (Text '''', None)"

text \<open>
  \<open>predict\<close>: \<open>hist\<close> is \<open>None\<close> or a list; \<open>file_obj\<close> is \<open>None\<close> when no file was
  uploaded, and then \<open>file_obj.name\<close> raises. The list is extended only after the answer
  has been obtained.
\<close>

definition predict ::
  "('c, 'v, 'f) env \<Rightarrow> ('c, 'v, 'f) trace \<Rightarrow> string \<Rightarrow> string \<Rightarrow> file_obj option \<Rightarrow> int \<Rightarrow> int \<Rightarrow> 'f \<Rightarrow> 'f
     \<Rightarrow> turn list option \<Rightarrow> (exn + string \<times> turn list \<times> turn list) \<times> ('c, 'v, 'f) trace" where
  "predict E tr inp embedding_model file_obj VECTOR_SEARCH_TOP_K history_len temp topp hist =
     (let hist1 = (case hist of None \<Rightarrow> [] | Some h \<Rightarrow> h) in
      case file_obj of
        None \<Rightarrow> (Inl (AttributeError ''name''), tr)
      | Some f \<Rightarrow>
          let tr1 = tr @ [Print (name f)] in
          (case init_knowledge_vector_store E tr1 embedding_model (name f) of
             (Inl e, tr2) \<Rightarrow> (Inl e, tr2)
           | (Inr vector_store, tr2) \<Rightarrow>
               (case get_knowledge_based_answer E tr2 inp vector_store VECTOR_SEARCH_TOP_K
                       hist1 history_len temp topp of
                  (Inl e, tr3) \<Rightarrow> (Inl e, tr3)
                | (Inr resp, tr3) \<Rightarrow>
                    (Inr ('''', hist1 @ [(inp, resp)], hist1 @ [(inp, resp)]), tr3 @ [Print resp]))))"

section \<open>The event handlers\<close>

text \<open>
  The values of the widgets that the handlers read and write. \<open>send.click\<close> and
  \<open>message.submit\<close> call \<open>predict\<close> on eight widgets and write its three results to
  \<open>message\<close>, \<open>chatbot\<close> and \<open>state\<close>; \<open>clear_history.click\<close> calls \<open>clear_session\<close>
  on no input and writes its two results to \<open>chatbot\<close> and \<open>state\<close>. What the user
  interface does when a handler raises is not part of the script: \<open>send_click\<close> then
  returns the exception.
\<close>

record 'f widgets =
  w_message :: string
  w_embedding_model :: string
  w_file :: "file_obj option"
  w_VECTOR_SEARCH_TOP_K :: int
  w_HISTORY_LEN :: int
  w_temperature :: 'f
  w_top_p :: 'f
  w_chatbot :: chatbot_value
  w_state :: "turn list option"

definition send_click ::
  "('c, 'v, 'f) env \<Rightarrow> ('c, 'v, 'f) trace \<Rightarrow> 'f widgets \<Rightarrow> (exn + 'f widgets) \<times> ('c, 'v, 'f) trace" where
  "send_click E tr w =
     (case predict E tr (w_message w) (w_embedding_model w) (w_file w) (w_VECTOR_SEARCH_TOP_K w)
             (w_HISTORY_LEN w) (w_temperature w) (w_top_p w) (w_state w) of
        (Inl e, tr') \<Rightarrow> (Inl e, tr')
      | (Inr (out1, out2, out3), tr') \<Rightarrow>
          (Inr (w\<lparr>w_message := out1, w_chatbot := Turns out2, w_state := Some out3\<rparr>), tr'))"

definition clear_history_click :: "'f widgets \<Rightarrow> 'f widgets" where
  "clear_history_click w =
     (case clear_session of (out1, out2) \<Rightarrow> w\<lparr>w_chatbot := out1, w_state := out2\<rparr>)"

section \<open>Observations on a trace\<close>



section \<open>A concrete environment\<close>

text \<open>
  One environment in which every collaborator answers: the file holds one paragraph, the
  index is the list of documents, the retriever returns its first \<open>k\<close> entries, and the
  language model answers \<open>Paris\<close>.
\<close>

definition demo_doc :: doc where
  "demo_doc = \<lparr>page_content = ''The capital of France is Paris.'', metadata = []\<rparr>"

definition demo_query :: string where
  "demo_query = ''What is the capital of France?''"

definition demo_env :: "(unit, doc list, real) env" where
  "demo_env =
     \<lparr>ext_HuggingFaceEmbeddings = (\<lambda>tr m. Inr \<lparr>model_name = m, client = ()\<rparr>),
      ext_SentenceTransformer = (\<lambda>tr m d. Inr ()),
      ext_load = (\<lambda>tr p. Inr [demo_doc]),
      ext_from_documents = (\<lambda>tr ds e. Inr ds),
      ext_ChatGLM = (\<lambda>tr. Inr \<lparr>history = [], temperature = 0, top_p = 0\<rparr>),
      ext_retrieve = (\<lambda>tr v q k. Inr (take (nat k) v)),
      ext_combine = (\<lambda>ds. concat (map page_content ds)),
      ext_generate = (\<lambda>tr c p. Inr ''Paris'')\<rparr>"

definition demo_prompt :: string where
  "demo_prompt = template_head @ page_content demo_doc @ template_mid @ demo_query"

definition demo_embeddings :: "unit embeddings" where
  "demo_embeddings = \<lparr>model_name = ''nghuyong/ernie-3.0-nano-zh'', client = ()\<rparr>"

definition demo_client :: "turn list \<Rightarrow> real ChatGLM" where
  "demo_client h = \<lparr>history = h, temperature = 1 / 100, top_p = 9 / 10\<rparr>"

text \<open>The events of one send in this environment, with \<open>h\<close> the history given to the model.\<close>

definition demo_trace :: "turn list \<Rightarrow> (unit, doc list, real) trace" where
  "demo_trace h =
     [Print ''kb.txt'',
      New_HuggingFaceEmbeddings ''nghuyong/ernie-3.0-nano-zh'',
      New_SentenceTransformer ''nghuyong/ernie-3.0-nano-zh'' ''cpu'',
      Loader_load ''kb.txt'', FAISS_from_documents [demo_doc] demo_embeddings,
      New_ChatGLM, Retrieve [demo_doc] demo_query 1,
      Generate (demo_client h) demo_prompt,
      Print ''Paris'']"

definition demo_widgets :: "real widgets" where
  "demo_widgets =
     \<lparr>w_message = demo_query, w_embedding_model = ''ernie-tiny'', w_file = Some (File ''kb.txt''),
      w_VECTOR_SEARCH_TOP_K = 1, w_HISTORY_LEN = 3, w_temperature = 1 / 100, w_top_p = 9 / 10,
      w_chatbot = Turns [], w_state = None\<rparr>"

section \<open>Python slices and the prompt template\<close>

lemma slice_from_last:
  "0 < n \<Longrightarrow> slice_from xs (- n) = drop (length xs - nat n) xs"
  by (auto simp: slice_from_def Let_def max_def nat_diff_distrib' intro!: arg_cong2[where f=drop])

lemma format_go_literal:
  "\<forall>c\<in>set xs. c \<noteq> CHR ''{'' \<and> c \<noteq> CHR ''}'' \<Longrightarrow>
   format_go kw None acc (xs @ rest) = format_go kw None (acc @ xs) rest"
  by (induction xs arbitrary: acc) simp_all

lemma format_go_context:
  "format_go [(''context'', ctx), (''question'', q)] None acc (''{context}'' @ rest) =
   format_go [(''context'', ctx), (''question'', q)] None (acc @ ctx) rest"
  by (simp add: field_special_def)

lemma format_go_question:
  "format_go [(''context'', ctx), (''question'', q)] None acc (''{question}'' @ rest) =
   format_go [(''context'', ctx), (''question'', q)] None (acc @ q) rest"
  by (simp add: field_special_def)

lemma head_plain: "\<forall>c\<in>set template_head. c \<noteq> CHR ''{'' \<and> c \<noteq> CHR ''}''"
  by (simp add: template_head_def policy_line1_def policy_line2_def context_label_def)

lemma mid_plain: "\<forall>c\<in>set template_mid. c \<noteq> CHR ''{'' \<and> c \<noteq> CHR ''}''"
  by (simp add: template_mid_def question_label_def)

lemma format_prompt:
  "format_template prompt_template [(''context'', ctx), (''question'', q)] =
   Inr (template_head @ ctx @ template_mid @ q)"
proof -
  let ?kw = "[(''context'', ctx), (''question'', q)]"
  have "format_go ?kw None [] (template_head @ (''{context}'' @ (template_mid @ (''{question}'' @ [])))) =
        format_go ?kw None (((([] @ template_head) @ ctx) @ template_mid) @ q) []"
    by (simp only: format_go_literal [OF head_plain] format_go_literal [OF mid_plain]
          format_go_context format_go_question)
  then show ?thesis
    by (simp add: format_template_def prompt_template_def)
qed

section \<open>What each function does when it returns\<close>

lemma init_returns:
  assumes "init_knowledge_vector_store E tr m fp = (Inr vs, tr')"
  shows "\<exists>mname emb0 cl docs.
           embedding_model_dict m = Some mname \<and>
           ext_HuggingFaceEmbeddings E tr mname = Inr emb0 \<and>
           ext_SentenceTransformer E (tr @ [New_HuggingFaceEmbeddings mname]) (model_name emb0) DEVICE = Inr cl \<and>
           ext_load E (tr @ [New_HuggingFaceEmbeddings mname, New_SentenceTransformer (model_name emb0) DEVICE]) fp
             = Inr docs \<and>
           ext_from_documents E
             (tr @ [New_HuggingFaceEmbeddings mname, New_SentenceTransformer (model_name emb0) DEVICE, Loader_load fp])
             docs (emb0\<lparr>client := cl\<rparr>) = Inr vs \<and>
           tr' = tr @ [New_HuggingFaceEmbeddings mname, New_SentenceTransformer (model_name emb0) DEVICE,
                       Loader_load fp, FAISS_from_documents docs (emb0\<lparr>client := cl\<rparr>)]"
  using assms
  by (auto simp: init_knowledge_vector_store_def Let_def split: option.splits sum.splits)

lemma init_events:
  "\<exists>evs. snd (init_knowledge_vector_store E tr m fp) = tr @ evs \<and> (\<forall>c pr. Generate c pr \<notin> set evs)"
  by (auto simp: init_knowledge_vector_store_def Let_def split: option.splits sum.splits)

lemma answer_returns:
  assumes "get_knowledge_based_answer E tr q vs k h n t p = (Inr a, tr')"
  shows "\<exists>c0 docs.
           ext_ChatGLM E tr = Inr c0 \<and>
           ext_retrieve E (tr @ [New_ChatGLM]) vs q k = Inr docs \<and>
           tr' = tr @ [New_ChatGLM, Retrieve vs q k,
                       Generate (c0\<lparr>history := (if 0 < n then drop (length h - nat n) h else []),
                                    temperature := t, top_p := p\<rparr>)
                         (template_head @ ext_combine E docs @ template_mid @ q)]"
  using assms
  by (auto simp: get_knowledge_based_answer_def knowledge_chain_def Let_def format_prompt slice_from_last
           split: sum.splits)

lemma answer_events:
  "\<exists>evs. snd (get_knowledge_based_answer E tr q vs k h n t p) = tr @ evs \<and>
     (\<forall>c pr. Generate c pr \<in> set evs \<longrightarrow>
        history c = (if 0 < n then drop (length h - nat n) h else []) \<and>
        temperature c = t \<and> top_p c = p \<and>
        (\<exists>docs. ext_retrieve E (tr @ [New_ChatGLM]) vs q k = Inr docs \<and>
           pr = template_head @ ext_combine E docs @ template_mid @ q))"
  by (auto simp: get_knowledge_based_answer_def knowledge_chain_def Let_def format_prompt slice_from_last
           split: sum.splits)

lemma predict_returns:
  assumes "predict E tr q m fo k n t p hist = (Inr r, tr')"
  shows "\<exists>f vs tr1 a tr2.
           fo = Some f \<and>
           init_knowledge_vector_store E (tr @ [Print (name f)]) m (name f) = (Inr vs, tr1) \<and>
           get_knowledge_based_answer E tr1 q vs k (case hist of None \<Rightarrow> [] | Some h \<Rightarrow> h) n t p = (Inr a, tr2) \<and>
           r = ('''', (case hist of None \<Rightarrow> [] | Some h \<Rightarrow> h) @ [(q, a)],
                     (case hist of None \<Rightarrow> [] | Some h \<Rightarrow> h) @ [(q, a)]) \<and>
           tr' = tr2 @ [Print a]"
  using assms
  by (auto simp: predict_def Let_def split: option.splits sum.splits prod.splits)

lemma predict_events:
  assumes "snd (predict E tr q m fo k n t p hist) = tr @ evs" and "Generate c pr \<in> set evs"
  shows "history c = (if 0 < n then drop (length (case hist of None \<Rightarrow> [] | Some h \<Rightarrow> h) - nat n)
                                   (case hist of None \<Rightarrow> [] | Some h \<Rightarrow> h) else []) \<and>
         temperature c = t \<and> top_p c = p"
proof (cases fo)
  case None
  with assms show ?thesis by (simp add: predict_def)
next
  case (Some f)
  let ?H = "case hist of None \<Rightarrow> [] | Some h \<Rightarrow> h"
  obtain r1 tr1 where i: "init_knowledge_vector_store E (tr @ [Print (name f)]) m (name f) = (r1, tr1)"
    by (cases "init_knowledge_vector_store E (tr @ [Print (name f)]) m (name f)")
  from init_events [of E "tr @ [Print (name f)]" m "name f"] i
  obtain evs1 where e1: "tr1 = tr @ [Print (name f)] @ evs1" and n1: "\<forall>c pr. Generate c pr \<notin> set evs1"
    by auto
  show ?thesis
  proof (cases r1)
    case (Inl e)
    with assms Some i e1 n1 show ?thesis by (auto simp: predict_def)
  next
    case (Inr vs)
    obtain r2 tr2 where g: "get_knowledge_based_answer E tr1 q vs k ?H n t p = (r2, tr2)"
      by (cases "get_knowledge_based_answer E tr1 q vs k ?H n t p")
    from answer_events [of E tr1 q vs k ?H n t p]
    obtain evs2 where s2: "snd (get_knowledge_based_answer E tr1 q vs k ?H n t p) = tr1 @ evs2"
      and n2: "\<forall>c pr. Generate c pr \<in> set evs2 \<longrightarrow>
                 history c = (if 0 < n then drop (length ?H - nat n) ?H else []) \<and>
                 temperature c = t \<and> top_p c = p"
      by blast
    from s2 g have e2: "tr2 = tr1 @ evs2" by simp
    have "evs = [Print (name f)] @ evs1 @ evs2 \<or> (\<exists>a. evs = [Print (name f)] @ evs1 @ evs2 @ [Print a])"
      using assms(1) Some i Inr g e1 e2 by (cases r2) (auto simp: predict_def Let_def)
    with assms(2) n1 have "Generate c pr \<in> set evs2" by auto
    with n2 show ?thesis by blast
  qed
qed

lemma predict_trace:
  assumes "predict E tr q m fo k n t p hist = (Inr r, tr')"
  shows "\<exists>f mname emb docs vs c pr a.
           fo = Some f \<and>
           ext_load E (tr @ [Print (name f), New_HuggingFaceEmbeddings mname,
                             New_SentenceTransformer (model_name emb) DEVICE]) (name f) = Inr docs \<and>
           ext_from_documents E (tr @ [Print (name f), New_HuggingFaceEmbeddings mname,
                                       New_SentenceTransformer (model_name emb) DEVICE, Loader_load (name f)])
             docs emb = Inr vs \<and>
           tr' = tr @ [Print (name f), New_HuggingFaceEmbeddings mname,
                       New_SentenceTransformer (model_name emb) DEVICE, Loader_load (name f),
                       FAISS_from_documents docs emb, New_ChatGLM, Retrieve vs q k, Generate c pr, Print a]"
proof -
  from predict_returns [OF assms] obtain f vs tr1 a tr2 where
    fo: "fo = Some f" and
    i: "init_knowledge_vector_store E (tr @ [Print (name f)]) m (name f) = (Inr vs, tr1)" and
    g: "get_knowledge_based_answer E tr1 q vs k (case hist of None \<Rightarrow> [] | Some h \<Rightarrow> h) n t p = (Inr a, tr2)" and
    t': "tr' = tr2 @ [Print a]"
    by blast
  from init_returns [OF i] obtain mname emb0 cl docs where
    l: "ext_load E ((tr @ [Print (name f)]) @ [New_HuggingFaceEmbeddings mname,
          New_SentenceTransformer (model_name emb0) DEVICE]) (name f) = Inr docs" and
    b: "ext_from_documents E ((tr @ [Print (name f)]) @ [New_HuggingFaceEmbeddings mname,
          New_SentenceTransformer (model_name emb0) DEVICE, Loader_load (name f)])
          docs (emb0\<lparr>client := cl\<rparr>) = Inr vs" and
    t1: "tr1 = (tr @ [Print (name f)]) @ [New_HuggingFaceEmbeddings mname,
          New_SentenceTransformer (model_name emb0) DEVICE, Loader_load (name f),
          FAISS_from_documents docs (emb0\<lparr>client := cl\<rparr>)]"
    by blast
  from answer_returns [OF g] obtain c pr where
    t2: "tr2 = tr1 @ [New_ChatGLM, Retrieve vs q k, Generate c pr]"
    by blast
  let ?emb = "emb0\<lparr>client := cl\<rparr>"
  have "model_name ?emb = model_name emb0" by simp
  with fo l b t1 t2 t'
  have "fo = Some f \<and>
        ext_load E (tr @ [Print (name f), New_HuggingFaceEmbeddings mname,
                          New_SentenceTransformer (model_name ?emb) DEVICE]) (name f) = Inr docs \<and>
        ext_from_documents E (tr @ [Print (name f), New_HuggingFaceEmbeddings mname,
                                    New_SentenceTransformer (model_name ?emb) DEVICE, Loader_load (name f)])
          docs ?emb = Inr vs \<and>
        tr' = tr @ [Print (name f), New_HuggingFaceEmbeddings mname,
                    New_SentenceTransformer (model_name ?emb) DEVICE, Loader_load (name f),
                    FAISS_from_documents docs ?emb, New_ChatGLM, Retrieve vs q k, Generate c pr, Print a]"
    by simp
  then show ?thesis by blast
qed

lemma init_no_search:
  "\<exists>evs. snd (init_knowledge_vector_store E tr m fp) = tr @ evs \<and> (\<forall>v q k. Retrieve v q k \<notin> set evs)"
  by (auto simp: init_knowledge_vector_store_def Let_def split: option.splits sum.splits)

lemma answer_search:
  "\<exists>evs. snd (get_knowledge_based_answer E tr q vs k h n t p) = tr @ evs \<and>
     (\<forall>v q' k'. Retrieve v q' k' \<in> set evs \<longrightarrow> v = vs \<and> q' = q \<and> k' = k)"
  by (auto simp: get_knowledge_based_answer_def knowledge_chain_def Let_def split: sum.splits)

lemma predict_search:
  assumes "snd (predict E tr q m fo k n t p hist) = tr @ evs" and "Retrieve v q' k' \<in> set evs"
  shows "\<exists>f mname emb docs.
           fo = Some f \<and>
           ext_load E (tr @ [Print (name f), New_HuggingFaceEmbeddings mname,
                             New_SentenceTransformer (model_name emb) DEVICE]) (name f) = Inr docs \<and>
           ext_from_documents E (tr @ [Print (name f), New_HuggingFaceEmbeddings mname,
                                       New_SentenceTransformer (model_name emb) DEVICE, Loader_load (name f)])
             docs emb = Inr v \<and>
           take 5 evs = [Print (name f), New_HuggingFaceEmbeddings mname,
                         New_SentenceTransformer (model_name emb) DEVICE, Loader_load (name f),
                         FAISS_from_documents docs emb]"
proof (cases fo)
  case None
  with assms show ?thesis by (simp add: predict_def)
next
  case (Some f)
  let ?H = "case hist of None \<Rightarrow> [] | Some h \<Rightarrow> h"
  obtain r1 tr1 where i: "init_knowledge_vector_store E (tr @ [Print (name f)]) m (name f) = (r1, tr1)"
    by (cases "init_knowledge_vector_store E (tr @ [Print (name f)]) m (name f)")
  show ?thesis
  proof (cases r1)
    case (Inl e)
    from init_no_search [of E "tr @ [Print (name f)]" m "name f"] i
    obtain evs1 where "tr1 = tr @ [Print (name f)] @ evs1" and "\<forall>v q k. Retrieve v q k \<notin> set evs1"
      by auto
    with assms Some i Inl show ?thesis by (auto simp: predict_def)
  next
    case (Inr vs)
    with i have i': "init_knowledge_vector_store E (tr @ [Print (name f)]) m (name f) = (Inr vs, tr1)"
      by simp
    from init_returns [OF i'] obtain mname emb0 cl docs where
      l: "ext_load E ((tr @ [Print (name f)]) @ [New_HuggingFaceEmbeddings mname,
            New_SentenceTransformer (model_name emb0) DEVICE]) (name f) = Inr docs" and
      b: "ext_from_documents E ((tr @ [Print (name f)]) @ [New_HuggingFaceEmbeddings mname,
            New_SentenceTransformer (model_name emb0) DEVICE, Loader_load (name f)])
            docs (emb0\<lparr>client := cl\<rparr>) = Inr vs" and
      t1: "tr1 = (tr @ [Print (name f)]) @ [New_HuggingFaceEmbeddings mname,
            New_SentenceTransformer (model_name emb0) DEVICE, Loader_load (name f),
            FAISS_from_documents docs (emb0\<lparr>client := cl\<rparr>)]"
      by blast
    obtain r2 tr2 where g: "get_knowledge_based_answer E tr1 q vs k ?H n t p = (r2, tr2)"
      by (cases "get_knowledge_based_answer E tr1 q vs k ?H n t p")
    from answer_search [of E tr1 q vs k ?H n t p] g
    obtain evs2 where e2: "tr2 = tr1 @ evs2"
      and n2: "\<forall>v q' k'. Retrieve v q' k' \<in> set evs2 \<longrightarrow> v = vs \<and> q' = q \<and> k' = k"
      by auto
    let ?pre = "[Print (name f), New_HuggingFaceEmbeddings mname,
                 New_SentenceTransformer (model_name emb0) DEVICE, Loader_load (name f),
                 FAISS_from_documents docs (emb0\<lparr>client := cl\<rparr>)]"
    have shape: "evs = ?pre @ evs2 \<or> (\<exists>a. evs = ?pre @ evs2 @ [Print a])"
      using assms(1) Some i' g t1 e2 by (cases r2) (auto simp: predict_def Let_def)
    with assms(2) have "Retrieve v q' k' \<in> set evs2" by auto
    with n2 have v: "v = vs" by blast
    from shape have tk: "take 5 evs = ?pre" by auto
    let ?emb = "emb0\<lparr>client := cl\<rparr>"
    have "model_name ?emb = model_name emb0" by simp
    with Some l b v tk
    have "fo = Some f \<and>
           ext_load E (tr @ [Print (name f), New_HuggingFaceEmbeddings mname,
                             New_SentenceTransformer (model_name ?emb) DEVICE]) (name f) = Inr docs \<and>
           ext_from_documents E (tr @ [Print (name f), New_HuggingFaceEmbeddings mname,
                                       New_SentenceTransformer (model_name ?emb) DEVICE, Loader_load (name f)])
             docs ?emb = Inr v \<and>
           take 5 evs = [Print (name f), New_HuggingFaceEmbeddings mname,
                         New_SentenceTransformer (model_name ?emb) DEVICE, Loader_load (name f),
                         FAISS_from_documents docs ?emb]"
      by simp
    then show ?thesis by blast
  qed
qed

section \<open>The concrete environment, evaluated\<close>

lemma demo_init:
  "init_knowledge_vector_store demo_env tr ''ernie-tiny'' fp =
     (Inr [demo_doc],
      tr @ [New_HuggingFaceEmbeddings ''nghuyong/ernie-3.0-nano-zh'',
            New_SentenceTransformer ''nghuyong/ernie-3.0-nano-zh'' ''cpu'',
            Loader_load fp, FAISS_from_documents [demo_doc] demo_embeddings])"
  by (simp add: init_knowledge_vector_store_def embedding_model_dict_def demo_env_def DEVICE_def
        demo_embeddings_def)

lemma demo_answer:
  "get_knowledge_based_answer demo_env tr demo_query [demo_doc] 1 h n t p =
     (Inr ''Paris'',
      tr @ [New_ChatGLM, Retrieve [demo_doc] demo_query 1,
            Generate \<lparr>history = (if 0 < n then drop (length h - nat n) h else []), temperature = t, top_p = p\<rparr>
              demo_prompt])"
  by (simp add: get_knowledge_based_answer_def knowledge_chain_def demo_env_def format_prompt
        demo_prompt_def slice_from_last)

lemma demo_predict:
  "predict demo_env tr demo_query ''ernie-tiny'' (Some (File ''kb.txt'')) 1 n t p hist =
     (Inr ('''', (case hist of None \<Rightarrow> [] | Some h \<Rightarrow> h) @ [(demo_query, ''Paris'')],
                (case hist of None \<Rightarrow> [] | Some h \<Rightarrow> h) @ [(demo_query, ''Paris'')]),
      tr @ [Print ''kb.txt'',
            New_HuggingFaceEmbeddings ''nghuyong/ernie-3.0-nano-zh'',
            New_SentenceTransformer ''nghuyong/ernie-3.0-nano-zh'' ''cpu'',
            Loader_load ''kb.txt'', FAISS_from_documents [demo_doc] demo_embeddings,
            New_ChatGLM, Retrieve [demo_doc] demo_query 1,
            Generate \<lparr>history = (if 0 < n then drop (length (case hist of None \<Rightarrow> [] | Some h \<Rightarrow> h) - nat n)
                                      (case hist of None \<Rightarrow> [] | Some h \<Rightarrow> h) else []),
                      temperature = t, top_p = p\<rparr> demo_prompt,
            Print ''Paris''])"
  by (simp add: predict_def Let_def demo_init demo_answer)

section \<open>History truncation\<close>

text \<open>
  C1. Whenever a call of \<open>get_knowledge_based_answer\<close> with history \<open>h\<close> and
  \<open>history_len = n\<close> calls the language model, the client it calls carries, for
  \<open>n > 0\<close>, exactly the last \<open>min (length h) n\<close> turns of \<open>h\<close> in their order (\<open>h\<close>
  without its first \<open>length h - min (length h) n\<close> turns), and for \<open>n = 0\<close> the empty
  history. \<open>evs\<close> are the events the call appends to the trace.
\<close>

theorem history_truncation:
  assumes "snd (get_knowledge_based_answer E tr q vs k h n t p) = tr @ evs"
    and "Generate c pr \<in> set evs"
  shows "(0 < n \<longrightarrow> history c = drop (length h - min (length h) (nat n)) h \<and>
                   length (history c) = min (length h) (nat n)) \<and>
         (n = 0 \<longrightarrow> history c = [])"
proof -
  from answer_events [of E tr q vs k h n t p] assms
  have "history c = (if 0 < n then drop (length h - nat n) h else [])"
    by auto
  then show ?thesis
    by (auto simp: min_def)
qed

theorem history_truncation_witness:
  "snd (get_knowledge_based_answer demo_env [] demo_query [demo_doc] 1
          [(''q1'', ''a1''), (''q2'', ''a2''), (''q3'', ''a3'')] 2 (1 / 100) (9 / 10))
     = [] @ [New_ChatGLM, Retrieve [demo_doc] demo_query 1,
             Generate \<lparr>history = [(''q2'', ''a2''), (''q3'', ''a3'')], temperature = 1 / 100, top_p = 9 / 10\<rparr>
               demo_prompt] \<and>
   Generate \<lparr>history = [(''q2'', ''a2''), (''q3'', ''a3'')], temperature = 1 / 100, top_p = 9 / 10\<rparr> demo_prompt
     \<in> set ([New_ChatGLM, Retrieve [demo_doc] demo_query 1,
             Generate \<lparr>history = [(''q2'', ''a2''), (''q3'', ''a3'')], temperature = 1 / 100, top_p = 9 / 10\<rparr>
               demo_prompt] :: (unit, doc list, real) trace) \<and>
   history \<lparr>history = [(''q2'', ''a2''), (''q3'', ''a3'')], temperature = 1 / 100 :: real, top_p = 9 / 10\<rparr>
     = drop (3 - min 3 (nat 2)) [(''q1'', ''a1''), (''q2'', ''a2''), (''q3'', ''a3'')] \<and>
   length (history \<lparr>history = [(''q2'', ''a2''), (''q3'', ''a3'')], temperature = 1 / 100 :: real, top_p = 9 / 10\<rparr>)
     = min 3 (nat 2)"
proof -
  let ?c = "\<lparr>history = [(''q2'', ''a2''), (''q3'', ''a3'')], temperature = 1 / 100 :: real, top_p = 9 / 10\<rparr>"
  let ?evs = "[New_ChatGLM, Retrieve [demo_doc] demo_query 1, Generate ?c demo_prompt]"
  have a: "snd (get_knowledge_based_answer demo_env [] demo_query [demo_doc] 1
                  [(''q1'', ''a1''), (''q2'', ''a2''), (''q3'', ''a3'')] 2 (1 / 100) (9 / 10)) = [] @ ?evs"
    by (simp add: demo_answer)
  have b: "Generate ?c demo_prompt \<in> set ?evs"
    by simp
  from history_truncation [OF a b] a b show ?thesis
    by simp
qed

section \<open>Appending the new turn\<close>

text \<open>
  C2. When a call of \<open>predict\<close> with query \<open>q\<close> and history \<open>h\<close> builds its vector store
  and obtains the answer \<open>a\<close> from \<open>get_knowledge_based_answer\<close>, it returns, as its
  second and as its third value, \<open>h\<close> followed by the one turn \<open>(q, a)\<close>: the turns of
  \<open>h\<close> are all kept, unchanged and in order, and the answer reaches the caller as the
  second component of the last turn.
\<close>

theorem predict_appends_turn:
  assumes "init_knowledge_vector_store E (tr @ [Print (name f)]) m (name f) = (Inr vs, tr1)"
    and "get_knowledge_based_answer E tr1 q vs k h n t p = (Inr a, tr2)"
  shows "predict E tr q m (Some f) k n t p (Some h) =
           (Inr ('''', h @ [(q, a)], h @ [(q, a)]), tr2 @ [Print a]) \<and>
         take (length h) (h @ [(q, a)]) = h \<and> snd (last (h @ [(q, a)])) = a"
  using assms by (simp add: predict_def Let_def)

theorem predict_appends_turn_witness:
  "init_knowledge_vector_store demo_env ([] @ [Print (name (File ''kb.txt''))]) ''ernie-tiny'' (name (File ''kb.txt''))
     = (Inr [demo_doc],
        [Print ''kb.txt'', New_HuggingFaceEmbeddings ''nghuyong/ernie-3.0-nano-zh'',
         New_SentenceTransformer ''nghuyong/ernie-3.0-nano-zh'' ''cpu'',
         Loader_load ''kb.txt'', FAISS_from_documents [demo_doc] demo_embeddings]) \<and>
   fst (get_knowledge_based_answer demo_env
        [Print ''kb.txt'', New_HuggingFaceEmbeddings ''nghuyong/ernie-3.0-nano-zh'',
         New_SentenceTransformer ''nghuyong/ernie-3.0-nano-zh'' ''cpu'',
         Loader_load ''kb.txt'', FAISS_from_documents [demo_doc] demo_embeddings]
        demo_query [demo_doc] 1 [(''hi'', ''hello'')] 3 (1 / 100) (9 / 10)) = Inr ''Paris'' \<and>
   fst (predict demo_env [] demo_query ''ernie-tiny'' (Some (File ''kb.txt'')) 1 3 (1 / 100) (9 / 10)
          (Some [(''hi'', ''hello'')]))
     = Inr ('''', [(''hi'', ''hello''), (demo_query, ''Paris'')], [(''hi'', ''hello''), (demo_query, ''Paris'')])"
proof -
  let ?tr1 = "[Print ''kb.txt'', New_HuggingFaceEmbeddings ''nghuyong/ernie-3.0-nano-zh'',
         New_SentenceTransformer ''nghuyong/ernie-3.0-nano-zh'' ''cpu'',
         Loader_load ''kb.txt'', FAISS_from_documents [demo_doc] demo_embeddings]"
  have a: "init_knowledge_vector_store demo_env ([] @ [Print (name (File ''kb.txt''))]) ''ernie-tiny''
             (name (File ''kb.txt'')) = (Inr [demo_doc], ?tr1)"
    by (simp add: demo_init)
  obtain tr2 where b: "get_knowledge_based_answer demo_env ?tr1 demo_query [demo_doc] 1 [(''hi'', ''hello'')] 3
             (1 / 100) (9 / 10) = (Inr ''Paris'', tr2)"
    by (simp add: demo_answer)
  from predict_appends_turn [OF a b] a b show ?thesis
    by simp
qed

section \<open>The index is built in every call\<close>

text \<open>
  C3. A call of \<open>predict\<close> that returns has, in this order and once each, loaded the
  uploaded file, built the index from the documents just loaded and the embedder just
  constructed (\<open>FAISS.from_documents\<close> embeds and indexes), and searched the index just
  built. And whatever the outcome of a call, an index \<open>v\<close> that the call searches is what
  its own index build returned, on the documents its own load of the file returned: the
  events \<open>evs\<close> of the call start with the load and the build. Both hold from every trace
  \<open>tr\<close> of earlier calls, so no call takes an index from an earlier one.
\<close>

theorem predict_rebuilds_index:
  "(predict E tr q m fo k n t p hist = (Inr r, tr') \<longrightarrow>
      (\<exists>f mname emb docs vs c pr a.
           fo = Some f \<and>
           ext_load E (tr @ [Print (name f), New_HuggingFaceEmbeddings mname,
                             New_SentenceTransformer (model_name emb) DEVICE]) (name f) = Inr docs \<and>
           ext_from_documents E (tr @ [Print (name f), New_HuggingFaceEmbeddings mname,
                                       New_SentenceTransformer (model_name emb) DEVICE, Loader_load (name f)])
             docs emb = Inr vs \<and>
           tr' = tr @ [Print (name f), New_HuggingFaceEmbeddings mname,
                       New_SentenceTransformer (model_name emb) DEVICE, Loader_load (name f),
                       FAISS_from_documents docs emb, New_ChatGLM, Retrieve vs q k, Generate c pr, Print a])) \<and>
   (snd (predict E tr q m fo k n t p hist) = tr @ evs \<longrightarrow> Retrieve v q' k' \<in> set evs \<longrightarrow>
      (\<exists>f mname emb docs.
           fo = Some f \<and>
           ext_load E (tr @ [Print (name f), New_HuggingFaceEmbeddings mname,
                             New_SentenceTransformer (model_name emb) DEVICE]) (name f) = Inr docs \<and>
           ext_from_documents E (tr @ [Print (name f), New_HuggingFaceEmbeddings mname,
                                       New_SentenceTransformer (model_name emb) DEVICE, Loader_load (name f)])
             docs emb = Inr v \<and>
           take 5 evs = [Print (name f), New_HuggingFaceEmbeddings mname,
                         New_SentenceTransformer (model_name emb) DEVICE, Loader_load (name f),
                         FAISS_from_documents docs emb]))"
proof (intro conjI impI)
  assume "predict E tr q m fo k n t p hist = (Inr r, tr')"
  then show "\<exists>f mname emb docs vs c pr a.
           fo = Some f \<and>
           ext_load E (tr @ [Print (name f), New_HuggingFaceEmbeddings mname,
                             New_SentenceTransformer (model_name emb) DEVICE]) (name f) = Inr docs \<and>
           ext_from_documents E (tr @ [Print (name f), New_HuggingFaceEmbeddings mname,
                                       New_SentenceTransformer (model_name emb) DEVICE, Loader_load (name f)])
             docs emb = Inr vs \<and>
           tr' = tr @ [Print (name f), New_HuggingFaceEmbeddings mname,
                       New_SentenceTransformer (model_name emb) DEVICE, Loader_load (name f),
                       FAISS_from_documents docs emb, New_ChatGLM, Retrieve vs q k, Generate c pr, Print a]"
    by (rule predict_trace)
next
  assume "snd (predict E tr q m fo k n t p hist) = tr @ evs" and "Retrieve v q' k' \<in> set evs"
  then show "\<exists>f mname emb docs.
           fo = Some f \<and>
           ext_load E (tr @ [Print (name f), New_HuggingFaceEmbeddings mname,
                             New_SentenceTransformer (model_name emb) DEVICE]) (name f) = Inr docs \<and>
           ext_from_documents E (tr @ [Print (name f), New_HuggingFaceEmbeddings mname,
                                       New_SentenceTransformer (model_name emb) DEVICE, Loader_load (name f)])
             docs emb = Inr v \<and>
           take 5 evs = [Print (name f), New_HuggingFaceEmbeddings mname,
                         New_SentenceTransformer (model_name emb) DEVICE, Loader_load (name f),
                         FAISS_from_documents docs emb]"
    by (rule predict_search)
qed

theorem predict_rebuilds_index_witness:
  "predict demo_env [] demo_query ''ernie-tiny'' (Some (File ''kb.txt'')) 1 3 (1 / 100) (9 / 10) (Some []) =
     (Inr ('''', [(demo_query, ''Paris'')], [(demo_query, ''Paris'')]), demo_trace []) \<and>
   (\<exists>f mname emb docs vs c pr a.
      Some (File ''kb.txt'') = Some f \<and>
      ext_load demo_env ([] @ [Print (name f), New_HuggingFaceEmbeddings mname,
                              New_SentenceTransformer (model_name emb) DEVICE]) (name f) = Inr docs \<and>
      ext_from_documents demo_env ([] @ [Print (name f), New_HuggingFaceEmbeddings mname,
                              New_SentenceTransformer (model_name emb) DEVICE, Loader_load (name f)])
        docs emb = Inr vs \<and>
      demo_trace []
      = [] @ [Print (name f), New_HuggingFaceEmbeddings mname,
              New_SentenceTransformer (model_name emb) DEVICE, Loader_load (name f),
              FAISS_from_documents docs emb, New_ChatGLM, Retrieve vs demo_query 1, Generate c pr, Print a]) \<and>
   snd (predict demo_env [] demo_query ''ernie-tiny'' (Some (File ''kb.txt'')) 1 3 (1 / 100) (9 / 10) (Some []))
     = [] @ demo_trace [] \<and>
   Retrieve [demo_doc] demo_query 1 \<in> set (demo_trace []) \<and>
   (\<exists>f mname emb docs.
      Some (File ''kb.txt'') = Some f \<and>
      ext_load demo_env ([] @ [Print (name f), New_HuggingFaceEmbeddings mname,
                              New_SentenceTransformer (model_name emb) DEVICE]) (name f) = Inr docs \<and>
      ext_from_documents demo_env ([] @ [Print (name f), New_HuggingFaceEmbeddings mname,
                              New_SentenceTransformer (model_name emb) DEVICE, Loader_load (name f)])
        docs emb = Inr [demo_doc] \<and>
      take 5 (demo_trace []) = [Print (name f), New_HuggingFaceEmbeddings mname,
                                New_SentenceTransformer (model_name emb) DEVICE, Loader_load (name f),
                                FAISS_from_documents docs emb])"
proof -
  have h: "predict demo_env [] demo_query ''ernie-tiny'' (Some (File ''kb.txt'')) 1 3 (1 / 100) (9 / 10) (Some []) =
     (Inr ('''', [(demo_query, ''Paris'')], [(demo_query, ''Paris'')]), demo_trace [])"
    by (simp add: demo_predict demo_trace_def demo_client_def)
  from h have s: "snd (predict demo_env [] demo_query ''ernie-tiny'' (Some (File ''kb.txt'')) 1 3 (1 / 100) (9 / 10)
                    (Some [])) = [] @ demo_trace []"
    by simp
  have m: "Retrieve [demo_doc] demo_query 1 \<in> set (demo_trace [])"
    by (simp add: demo_trace_def)
  note T = predict_rebuilds_index [of demo_env "[]" demo_query "''ernie-tiny''" "Some (File ''kb.txt'')" 1 3
      "1 / 100" "9 / 10" "Some []" "('''', [(demo_query, ''Paris'')], [(demo_query, ''Paris'')])" "demo_trace []"
      "demo_trace []" "[demo_doc]" demo_query 1]
  from h T [THEN conjunct1, rule_format, OF h] s m T [THEN conjunct2, rule_format, OF s m]
  show ?thesis
    by (intro conjI)
qed

section \<open>The prompt\<close>



section \<open>An embedding model that is not in the dictionary\<close>

text \<open>
  C5, as the code has it. For a key that is none of \<open>ernie-tiny\<close>, \<open>ernie-base\<close> and
  \<open>text2vec-base\<close>, \<open>init_knowledge_vector_store\<close> raises \<open>KeyError\<close> with the key, from
  the dictionary lookup and before any other call, and \<open>predict\<close> (with a file) raises the
  same \<open>KeyError\<close> after printing the file name: it returns nothing, and neither the
  loader, the index build nor the language model is called.
\<close>

theorem unknown_model_key_error:
  assumes "m \<notin> {''ernie-tiny'', ''ernie-base'', ''text2vec-base''}"
  shows "init_knowledge_vector_store E tr m fp = (Inl (KeyError m), tr) \<and>
         predict E tr q m (Some f) k n t p hist = (Inl (KeyError m), tr @ [Print (name f)])"
proof -
  from assms have "embedding_model_dict m = None"
    by (simp add: embedding_model_dict_def)
  then have "\<And>tr0 fp0. init_knowledge_vector_store E tr0 m fp0 = (Inl (KeyError m), tr0)"
    by (simp add: init_knowledge_vector_store_def)
  then show ?thesis
    by (simp add: predict_def Let_def)
qed

theorem unknown_model_key_error_witness:
  "''ernie-large'' \<notin> {''ernie-tiny'', ''ernie-base'', ''text2vec-base''} \<and>
   init_knowledge_vector_store demo_env [] ''ernie-large'' ''kb.txt'' = (Inl (KeyError ''ernie-large''), []) \<and>
   predict demo_env [] demo_query ''ernie-large'' (Some (File ''kb.txt'')) 1 3 (1 / 100) (9 / 10) None
     = (Inl (KeyError ''ernie-large''), [] @ [Print (name (File ''kb.txt''))])"
proof -
  have a: "''ernie-large'' \<notin> {''ernie-tiny'', ''ernie-base'', ''text2vec-base''}"
    by simp
  from a unknown_model_key_error [OF a, of demo_env "[]" "''kb.txt''" demo_query "File ''kb.txt''" 1 3 "1 / 100" "9 / 10" None]
  show ?thesis
    by (rule conjI)
qed

text \<open>
  The exception raised for the key \<open>ernie-large\<close> is a \<open>KeyError\<close>; its class is not
  \<open>UnknownModelError\<close>.
\<close>

theorem unknown_model_error_class_counterexample:
  "fst (init_knowledge_vector_store demo_env [] ''ernie-large'' ''kb.txt'') = Inl (KeyError ''ernie-large'') \<and>
   exn_class (KeyError ''ernie-large'') = ''KeyError'' \<and>
   exn_class (KeyError ''ernie-large'') \<noteq> ''UnknownModelError''"
  by (simp add: init_knowledge_vector_store_def embedding_model_dict_def)

section \<open>Clearing the session\<close>

text \<open>
  C6. Whatever the session holds, \<open>clear_history.click\<close> leaves the chatbot with the empty
  string, which holds no turn, and the state with \<open>None\<close>, which \<open>predict\<close> reads as the
  empty history: the next send from the cleared session does exactly what it does from a
  session whose transcript and history are the empty list.
\<close>

theorem clear_session_resets:
  "w_chatbot (clear_history_click w) = Text '''' \<and>
   w_state (clear_history_click w) = None \<and>
   (case w_state (clear_history_click w) of None \<Rightarrow> [] | Some h \<Rightarrow> h) = [] \<and>
   send_click E tr (clear_history_click w) = send_click E tr (w\<lparr>w_chatbot := Turns [], w_state := Some []\<rparr>)"
  by (simp add: clear_history_click_def clear_session_def send_click_def predict_def Let_def
        split: prod.splits sum.splits option.splits)

section \<open>The embedder is constructed in every call\<close>




section \<open>The sampling configuration\<close>

text \<open>
  C8. The client of every call of the language model carries, as its temperature and its
  top_p, the very values the caller gave, whether the caller called
  \<open>get_knowledge_based_answer\<close> or \<open>predict\<close>, which hands its own two arguments on
  unchanged.
\<close>

theorem sampling_passed_verbatim:
  assumes "snd (get_knowledge_based_answer E tr q vs k h n t p) = tr @ evs \<or>
           snd (predict E tr q m fo k n t p hist) = tr @ evs"
    and "Generate c pr \<in> set evs"
  shows "temperature c = t \<and> top_p c = p"
  using assms(1)
proof
  assume "snd (get_knowledge_based_answer E tr q vs k h n t p) = tr @ evs"
  with answer_events [of E tr q vs k h n t p] assms(2) show ?thesis
    by auto
next
  assume "snd (predict E tr q m fo k n t p hist) = tr @ evs"
  from predict_events [OF this assms(2)] show ?thesis
    by simp
qed

theorem sampling_passed_verbatim_witness:
  "(snd (get_knowledge_based_answer demo_env [] demo_query [demo_doc] 1 [] 3 (1 / 100) (9 / 10))
      = [] @ demo_trace [] \<or>
    snd (predict demo_env [] demo_query ''ernie-tiny'' (Some (File ''kb.txt'')) 1 3 (1 / 100) (9 / 10) (Some []))
      = [] @ demo_trace []) \<and>
   Generate (demo_client []) demo_prompt \<in> set (demo_trace []) \<and>
   temperature (demo_client []) = 1 / 100 \<and> top_p (demo_client []) = 9 / 10"
proof -
  have a: "snd (get_knowledge_based_answer demo_env [] demo_query [demo_doc] 1 [] 3 (1 / 100) (9 / 10))
      = [] @ demo_trace [] \<or>
    snd (predict demo_env [] demo_query ''ernie-tiny'' (Some (File ''kb.txt'')) 1 3 (1 / 100) (9 / 10) (Some []))
      = [] @ demo_trace []"
    by (simp add: demo_predict demo_trace_def demo_client_def)
  have b: "Generate (demo_client []) demo_prompt \<in> set (demo_trace [])"
    by (simp add: demo_trace_def)
  from sampling_passed_verbatim [OF a b] a b show ?thesis
    by simp
qed

section \<open>A session without a state\<close>

text \<open>
  C9. With \<open>None\<close> for the history, \<open>predict\<close> does exactly what it does with the empty
  list: the same result and the same calls. A language model it calls is given no turn,
  and the history it returns is the one turn of the query and its answer.
\<close>

theorem predict_none_history:
  "predict E tr q m fo k n t p None = predict E tr q m fo k n t p (Some []) \<and>
   (predict E tr q m fo k n t p None = (Inr r, tr') \<longrightarrow> (\<exists>a. r = ('''', [(q, a)], [(q, a)]))) \<and>
   (snd (predict E tr q m fo k n t p None) = tr @ evs \<longrightarrow> Generate c pr \<in> set evs \<longrightarrow> history c = [])"
proof (intro conjI impI)
  show "predict E tr q m fo k n t p None = predict E tr q m fo k n t p (Some [])"
    by (simp add: predict_def)
next
  assume "predict E tr q m fo k n t p None = (Inr r, tr')"
  from predict_returns [OF this] show "\<exists>a. r = ('''', [(q, a)], [(q, a)])"
    by auto
next
  assume "snd (predict E tr q m fo k n t p None) = tr @ evs" and "Generate c pr \<in> set evs"
  from predict_events [OF this] show "history c = []"
    by simp
qed

theorem predict_none_history_witness:
  "predict demo_env [] demo_query ''ernie-tiny'' (Some (File ''kb.txt'')) 1 3 (1 / 100) (9 / 10) None =
     predict demo_env [] demo_query ''ernie-tiny'' (Some (File ''kb.txt'')) 1 3 (1 / 100) (9 / 10) (Some []) \<and>
   predict demo_env [] demo_query ''ernie-tiny'' (Some (File ''kb.txt'')) 1 3 (1 / 100) (9 / 10) None =
     (Inr ('''', [(demo_query, ''Paris'')], [(demo_query, ''Paris'')]), demo_trace []) \<and>
   (\<exists>a. ('''', [(demo_query, ''Paris'')], [(demo_query, ''Paris'')]) = ('''', [(demo_query, a)], [(demo_query, a)])) \<and>
   snd (predict demo_env [] demo_query ''ernie-tiny'' (Some (File ''kb.txt'')) 1 3 (1 / 100) (9 / 10) None)
     = [] @ demo_trace [] \<and>
   Generate (demo_client []) demo_prompt \<in> set (demo_trace []) \<and>
   history (demo_client []) = []"
proof -
  have h: "predict demo_env [] demo_query ''ernie-tiny'' (Some (File ''kb.txt'')) 1 3 (1 / 100) (9 / 10) None =
     (Inr ('''', [(demo_query, ''Paris'')], [(demo_query, ''Paris'')]), demo_trace [])"
    by (simp add: demo_predict demo_trace_def demo_client_def)
  have b: "Generate (demo_client []) demo_prompt \<in> set (demo_trace [])"
    by (simp add: demo_trace_def)
  from h b
    predict_none_history [of demo_env "[]" demo_query "''ernie-tiny''" "Some (File ''kb.txt'')" 1 3 "1 / 100" "9 / 10"
      "('''', [(demo_query, ''Paris'')], [(demo_query, ''Paris'')])" "demo_trace []" "demo_trace []"
      "demo_client []" demo_prompt]
  show ?thesis
    by simp
qed

section \<open>The question box\<close>

text \<open>
  C10. Whenever \<open>predict\<close> returns, whatever its arguments, its first value is the empty
  string; \<open>send.click\<close> writes that value to the question box, which is therefore empty
  after every send that returns.
\<close>

theorem predict_clears_textbox:
  "(fst (predict E tr q m fo k n t p hist) = Inr r \<longrightarrow> fst r = '''') \<and>
   (fst (send_click E tr w) = Inr w' \<longrightarrow> w_message w' = '''')"
proof (intro conjI impI)
  assume a: "fst (predict E tr q m fo k n t p hist) = Inr r"
  obtain tr' where "predict E tr q m fo k n t p hist = (Inr r, tr')"
    using a by (cases "predict E tr q m fo k n t p hist") simp
  from predict_returns [OF this] show "fst r = ''''"
    by auto
next
  assume a: "fst (send_click E tr w) = Inr w'"
  obtain res tr' where pr: "predict E tr (w_message w) (w_embedding_model w) (w_file w) (w_VECTOR_SEARCH_TOP_K w)
             (w_HISTORY_LEN w) (w_temperature w) (w_top_p w) (w_state w) = (res, tr')"
    by (cases "predict E tr (w_message w) (w_embedding_model w) (w_file w) (w_VECTOR_SEARCH_TOP_K w)
             (w_HISTORY_LEN w) (w_temperature w) (w_top_p w) (w_state w)")
  show "w_message w' = ''''"
  proof (cases res)
    case (Inl e)
    with a pr show ?thesis by (simp add: send_click_def)
  next
    case (Inr r)
    with pr have "predict E tr (w_message w) (w_embedding_model w) (w_file w) (w_VECTOR_SEARCH_TOP_K w)
             (w_HISTORY_LEN w) (w_temperature w) (w_top_p w) (w_state w) = (Inr r, tr')"
      by simp
    from predict_returns [OF this] have "fst r = ''''"
      by auto
    with a pr Inr show ?thesis
      by (auto simp: send_click_def split: prod.splits)
  qed
qed

theorem predict_clears_textbox_witness:
  "fst (predict demo_env [] demo_query ''ernie-tiny'' (Some (File ''kb.txt'')) 1 3 (1 / 100) (9 / 10)
          (Some [(''hi'', ''hello'')]))
     = Inr ('''', [(''hi'', ''hello''), (demo_query, ''Paris'')], [(''hi'', ''hello''), (demo_query, ''Paris'')]) \<and>
   fst ('''' :: string, [(''hi'', ''hello''), (demo_query, ''Paris'')], [(''hi'', ''hello''), (demo_query, ''Paris'')])
     = '''' \<and>
   fst (send_click demo_env [] demo_widgets)
     = Inr (demo_widgets\<lparr>w_message := '''', w_chatbot := Turns [(demo_query, ''Paris'')],
                          w_state := Some [(demo_query, ''Paris'')]\<rparr>) \<and>
   w_message (demo_widgets\<lparr>w_message := '''', w_chatbot := Turns [(demo_query, ''Paris'')],
                           w_state := Some [(demo_query, ''Paris'')]\<rparr>) = ''''"
proof -
  have a: "fst (predict demo_env [] demo_query ''ernie-tiny'' (Some (File ''kb.txt'')) 1 3 (1 / 100) (9 / 10)
          (Some [(''hi'', ''hello'')]))
     = Inr ('''', [(''hi'', ''hello''), (demo_query, ''Paris'')], [(''hi'', ''hello''), (demo_query, ''Paris'')])"
    by (simp add: demo_predict)
  have b: "fst (send_click demo_env [] demo_widgets)
     = Inr (demo_widgets\<lparr>w_message := '''', w_chatbot := Turns [(demo_query, ''Paris'')],
                          w_state := Some [(demo_query, ''Paris'')]\<rparr>)"
    by (simp add: send_click_def demo_widgets_def demo_predict)
  from a b
    predict_clears_textbox [of demo_env "[]" demo_query "''ernie-tiny''" "Some (File ''kb.txt'')" 1 3 "1 / 100" "9 / 10"
      "Some [(''hi'', ''hello'')]"
      "('''', [(''hi'', ''hello''), (demo_query, ''Paris'')], [(''hi'', ''hello''), (demo_query, ''Paris'')])"
      demo_widgets
      "demo_widgets\<lparr>w_message := '''', w_chatbot := Turns [(demo_query, ''Paris'')],
                          w_state := Some [(demo_query, ''Paris'')]\<rparr>"]
  show ?thesis
    by simp
qed


end
